theory Spec2Isabelle
  imports Main
begin

section \<open>Host-language values used by the renderer\<close>

text \<open>
  The program is the Python class \<open>QChemInputWriter\<close> of \<open>qchem_inputgen/qchem.py\<close>, which
  renders a Q-Chem input text from a molecule and a record of options.

  Every exception the code can raise on well-typed arguments is a value of \<open>error\<close>; a
  function that may raise returns \<open>error + 'a\<close>, with \<open>Inl\<close> for the exception.
  \<open>AttributeError a\<close> is Python's \<open>AttributeError\<close> for a read of the attribute \<open>a\<close> on an
  object that has no attribute of that name.

  Strings are \<open>string\<close>, one \<open>char\<close> per character of the Python \<open>str\<close>; the widths the
  format specs pad to are counted in characters.
\<close>

datatype error = AttributeError string

text \<open>
  A Python \<open>float\<close> is an IEEE-754 double: a signed dyadic number, an infinity or a NaN.
  \<open>Finite s m e\<close> is the number \<open>(-1)^s * m * 2^e\<close> (\<open>s\<close> is the sign bit, so
  \<open>Finite True 0 0\<close> is \<open>-0.0\<close>). The formatting below is exact for every such value,
  the doubles among them.
\<close>

datatype pyfloat = Finite bool nat int | Infinity bool | NaN

abbreviation nl :: string where
  "nl \<equiv> [CHR 0x0A]"

subsection \<open>\<open>str.join\<close>, \<open>str.split\<close> and field alignment\<close>

text \<open>\<open>sep.join(xs)\<close>.\<close>

fun join :: "string \<Rightarrow> string list \<Rightarrow> string" where
  "join sep [] = []"
| "join sep [x] = x"
| "join sep (x # y # ys) = x @ sep @ join sep (y # ys)"

text \<open>
  \<open>s.split("\n")\<close>: the lines of a text. The renderer does not call it; it is how the
  theorems below say which lines a rendered text holds.
\<close>

fun split_nl :: "string \<Rightarrow> string list" where
  "split_nl [] = [[]]"
| "split_nl (c # cs) =
     (if c = CHR 0x0A then [] # split_nl cs
      else (case split_nl cs of [] \<Rightarrow> [[c]] | l # ls \<Rightarrow> (c # l) # ls))"

text \<open>
  The format specs \<open><w\<close> and \<open>>w\<close>: pad with spaces up to width \<open>w\<close>, never truncate.
\<close>

definition ljust :: "nat \<Rightarrow> string \<Rightarrow> string" where
  "ljust w s = s @ replicate (w - length s) CHR '' ''"

definition rjust :: "nat \<Rightarrow> string \<Rightarrow> string" where
  "rjust w s = replicate (w - length s) CHR '' '' @ s"

subsection \<open>\<open>str\<close> of an integer\<close>

definition digit_char :: "nat \<Rightarrow> char" where
  "digit_char d = ''0123456789'' ! (d mod 10)"

fun str_nat :: "nat \<Rightarrow> string" where
  "str_nat n = (if n < 10 then [digit_char n] else str_nat (n div 10) @ [digit_char (n mod 10)])"

definition str_int :: "int \<Rightarrow> string" where
  "str_int i = (if i < 0 then CHR ''-'' # str_nat (nat (- i)) else str_nat (nat i))"

subsection \<open>The format spec \<open>12.6f\<close> of a float\<close>

text \<open>
  \<open>round_half_even num den\<close> is the integer nearest to \<open>num / den\<close>, a tie going to the
  even neighbour: the rounding of CPython's float formatting, which works on the exact
  value of the double.
\<close>

definition round_half_even :: "nat \<Rightarrow> nat \<Rightarrow> nat" where
  "round_half_even num den =
     (let q = num div den; r = num mod den
      in if den < 2 * r \<or> (2 * r = den \<and> odd q) then q + 1 else q)"

text \<open>The magnitude \<open>m * 2^e\<close> in units of \<open>10^-6\<close>, rounded.\<close>

definition micro_units :: "nat \<Rightarrow> int \<Rightarrow> nat" where
  "micro_units m e =
     (if 0 \<le> e then m * 2 ^ nat e * 1000000
      else round_half_even (m * 1000000) (2 ^ nat (- e)))"

definition zfill :: "nat \<Rightarrow> string \<Rightarrow> string" where
  "zfill w s = replicate (w - length s) CHR ''0'' @ s"

text \<open>
  The precision \<open>.6f\<close>: sign, integer part, a point and six decimals; \<open>nan\<close> and \<open>inf\<close> as
  CPython spells them.
\<close>

definition format_6f :: "pyfloat \<Rightarrow> string" where
  "format_6f x =
     (case x of
        NaN \<Rightarrow> ''nan''
      | Infinity s \<Rightarrow> (if s then ''-inf'' else ''inf'')
      | Finite s m e \<Rightarrow>
          (let n = micro_units m e
           in (if s then ''-'' else '''') @ str_nat (n div 1000000) @ ''.'' @
              zfill 6 (str_nat (n mod 1000000))))"

text \<open>The width \<open>12\<close>: a number is right-aligned by default.\<close>

definition format_12_6f :: "pyfloat \<Rightarrow> string" where
  "format_12_6f x = rjust 12 (format_6f x)"

section \<open>The data model\<close>

text \<open>The frozen dataclass \<open>QChemOptions\<close>, field by field, and \<open>QChemOptions()\<close>.\<close>

record QChemOptions =
  jobtype :: string
  unrestricted :: bool
  basis :: string
  exchange :: string
  scf_guess :: string
  scf_convergence :: int
  scf_algorithm :: string
  max_scf_cycles :: int
  spin_flip :: int
  cis_n_roots :: int
  cis_singlets :: bool
  cis_triplets :: bool
  cis_convergence :: int
  max_cis_cycles :: int
  include_comment :: bool

definition default_options :: QChemOptions where
  "default_options =
     \<lparr> jobtype = ''SP'', unrestricted = False, basis = ''6-31G*'', exchange = ''BHHLYP'',
       scf_guess = ''CORE'', scf_convergence = 10, scf_algorithm = ''DIIS'',
       max_scf_cycles = 100, spin_flip = 2, cis_n_roots = 4, cis_singlets = True,
       cis_triplets = False, cis_convergence = 8, max_cis_cycles = 100,
       include_comment = True \<rparr>"

text \<open>
  Modelled from the spec: \<open>Molecule\<close> is imported from \<open>qchem_inputgen/xyz.py\<close>, which is
  not among the sources. The renderer reads \<open>mol.charge\<close> and \<open>mol.multiplicity\<close> and
  unpacks each element of \<open>mol.atoms\<close> as \<open>sym, x, y, z\<close>; the spec gives an integer
  charge, an integer multiplicity and atoms of a symbol and three floating-point
  coordinates, in input order.
\<close>

type_synonym atom = "string \<times> pyfloat \<times> pyfloat \<times> pyfloat"

record Molecule =
  charge :: int
  multiplicity :: int
  atoms :: "atom list"

section \<open>\<open>QChemInputWriter\<close>\<close>

text \<open>\<open>_tf(x)\<close>.\<close>

definition tf :: "bool \<Rightarrow> string" where
  "tf x = (if x then ''TRUE'' else ''FALSE'')"

text \<open>\<open>_kv(key, value, width)\<close>; \<open>render\<close> always calls it with the default width 18.\<close>

definition kv :: "string \<Rightarrow> string \<Rightarrow> nat \<Rightarrow> string" where
  "kv key val width = ljust width key @ '' '' @ val"

text \<open>
  \<open>render\<close> reads \<open>opts.method\<close> in two places: in the generated title and in the
  \<open>METHOD\<close> line. Attribute lookup is dynamic in Python, so the model of \<open>render\<close> takes
  the lookup as its first argument: \<open>getm opts\<close> is the value of \<open>opts.method\<close>, or the
  exception the read raises.

  The dataclass \<open>QChemOptions\<close> declares the fifteen fields above and nothing named
  \<open>method\<close> (no field, no property, no \<open>__getattr__\<close>), so on an instance of it the read
  raises \<open>AttributeError\<close>. That lookup is \<open>getattr_method\<close>, and \<open>render\<close> below is the
  renderer on instances of the class as it is written.
\<close>

definition getattr_method :: "QChemOptions \<Rightarrow> error + string" where
  "getattr_method opts = Inl (AttributeError ''method'')"

text \<open>\<open>f"{opts.basis}/{opts.method} MRSF-TDDFT"\<close>.\<close>

definition generated_title ::
  "(QChemOptions \<Rightarrow> error + string) \<Rightarrow> QChemOptions \<Rightarrow> error + string" where
  "generated_title getm opts =
     (case getm opts of
        Inl e \<Rightarrow> Inl e
      | Inr m \<Rightarrow> Inr (basis opts @ ''/'' @ m @ '' MRSF-TDDFT''))"

text \<open>
  \<open>title if title else f"..."\<close>: \<open>None\<close> and the empty string are both false, and the
  f-string is evaluated only then.
\<close>

definition auto_title ::
  "(QChemOptions \<Rightarrow> error + string) \<Rightarrow> QChemOptions \<Rightarrow> string option \<Rightarrow> error + string" where
  "auto_title getm opts title =
     (case title of
        None \<Rightarrow> generated_title getm opts
      | Some t \<Rightarrow> if t = [] then generated_title getm opts else Inr t)"

text \<open>The list \<open>blocks\<close> after the \<open>$comment\<close> part of \<open>render\<close>.\<close>

definition comment_blocks ::
  "(QChemOptions \<Rightarrow> error + string) \<Rightarrow> QChemOptions \<Rightarrow> string option \<Rightarrow> error + string list" where
  "comment_blocks getm opts title =
     (if include_comment opts
      then (case auto_title getm opts title of
              Inl e \<Rightarrow> Inl e
            | Inr t \<Rightarrow> Inr [join nl [''$comment'', ''  1 '' @ t, ''  2'', ''$end'', '''']])
      else Inr [])"

text \<open>\<open>f"{sym:<2s}  {x:12.6f}  {y:12.6f}  {z:12.6f}"\<close>.\<close>

definition atom_line :: "atom \<Rightarrow> string" where
  "atom_line a =
     (case a of (symb, x, y, z) \<Rightarrow>
        ljust 2 symb @ ''  '' @ format_12_6f x @ ''  '' @ format_12_6f y @ ''  '' @
        format_12_6f z)"

text \<open>The list \<open>mol_lines\<close> at the end of the \<open>$molecule\<close> part.\<close>

definition mol_lines :: "Molecule \<Rightarrow> string list" where
  "mol_lines mol =
     [''$molecule'', str_int (charge mol) @ '' '' @ str_int (multiplicity mol)] @
     map atom_line (atoms mol) @ [''$end'']"

text \<open>The list \<open>rem\<close> at the end of the \<open>$rem\<close> part, \<open>m\<close> being the value of \<open>opts.method\<close>.\<close>

definition rem_lines :: "string \<Rightarrow> QChemOptions \<Rightarrow> string list" where
  "rem_lines m opts =
     [''$rem'',
      kv ''JOBTYPE'' (jobtype opts) 18,
      kv ''UNRESTRICTED'' (tf (unrestricted opts)) 18,
      kv ''BASIS'' (basis opts) 18,
      kv ''METHOD'' m 18,
      kv ''SCF_GUESS'' (scf_guess opts) 18,
      kv ''SCF_CONVERGENCE'' (str_int (scf_convergence opts)) 18,
      kv ''SCF_ALGORITHM'' (scf_algorithm opts) 18,
      kv ''MAX_SCF_CYCLES'' (str_int (max_scf_cycles opts)) 18,
      kv ''SPIN_FLIP'' (str_int (spin_flip opts)) 18,
      kv ''CIS_N_ROOTS'' (str_int (cis_n_roots opts)) 18,
      kv ''CIS_SINGLETS'' (tf (cis_singlets opts)) 18,
      kv ''CIS_TRIPLETS'' (tf (cis_triplets opts)) 18,
      kv ''CIS_CONVERGENCE'' (str_int (cis_convergence opts)) 18,
      kv ''MAX_CIS_CYCLES'' (str_int (max_cis_cycles opts)) 18,
      ''$end'']"

text \<open>
  \<open>render(mol, opts, title=None)\<close>, in the order the source evaluates: the \<open>$comment\<close>
  part (which may read \<open>opts.method\<close>), the \<open>$molecule\<close> part, the \<open>$rem\<close> part (which
  reads \<open>opts.method\<close>), and the blocks joined by a line break.
\<close>

definition render_with ::
  "(QChemOptions \<Rightarrow> error + string) \<Rightarrow> Molecule \<Rightarrow> QChemOptions \<Rightarrow> string option \<Rightarrow>
   error + string" where
  "render_with getm mol opts title =
     (case comment_blocks getm opts title of
        Inl e \<Rightarrow> Inl e
      | Inr blocks \<Rightarrow>
          (case getm opts of
             Inl e \<Rightarrow> Inl e
           | Inr m \<Rightarrow>
               Inr (join nl (blocks @ [join nl (mol_lines mol) @ nl,
                                       join nl (rem_lines m opts) @ nl]))))"

definition render :: "Molecule \<Rightarrow> QChemOptions \<Rightarrow> string option \<Rightarrow> error + string" where
  "render = render_with getattr_method"

section \<open>Inputs and predicates of the statements\<close>

text \<open>The molecule of the repository's tests: one Be atom at the origin, charge 0, triplet.\<close>

definition be_mol :: Molecule where
  "be_mol =
     \<lparr> charge = 0, multiplicity = 3,
       atoms = [(''Be'', Finite False 0 0, Finite False 0 0, Finite False 0 0)] \<rparr>"

text \<open>Lithium hydride along the z axis, the hydrogen at \<open>z = 1.5\<close>.\<close>

definition lih_mol :: Molecule where
  "lih_mol =
     \<lparr> charge = 0, multiplicity = 1,
       atoms = [(''Li'', Finite False 0 0, Finite False 0 0, Finite False 0 0),
                (''H'', Finite False 0 0, Finite False 0 0, Finite False 3 (- 1))] \<rparr>"

text \<open>
  A lookup under which the read of \<open>opts.method\<close> gives the exchange functional. No
  class of the repository has it; it stands for "any lookup" where a statement holds
  under every lookup.
\<close>

definition method_is_exchange :: "QChemOptions \<Rightarrow> error + string" where
  "method_is_exchange opts = Inr (exchange opts)"

text \<open>A decimal digit, and a string without a line break.\<close>

definition digit :: "char \<Rightarrow> bool" where
  "digit c = (c \<in> set ''0123456789'')"

definition no_nl :: "string \<Rightarrow> bool" where
  "no_nl s = (CHR 0x0A \<notin> set s)"

section \<open>Evaluating the formatters\<close>

declare str_nat.simps [simp del]

lemma str_nat_small: "n < 10 \<Longrightarrow> str_nat n = [digit_char n]"
  by (subst str_nat.simps) simp

lemma str_nat_big: "\<not> n < 10 \<Longrightarrow> str_nat n = str_nat (n div 10) @ [digit_char (n mod 10)]"
  by (subst str_nat.simps) simp

lemma replicate_numeral: "replicate (numeral k) x = x # replicate (pred_numeral k) x"
  by (simp add: numeral_eq_Suc)

lemmas format_defs = format_12_6f_def format_6f_def micro_units_def round_half_even_def
  zfill_def rjust_def ljust_def digit_char_def str_int_def Let_def

lemmas eval_simps = format_defs str_nat_small str_nat_big replicate_numeral

lemma tf_cases: "tf True = ''TRUE'' \<and> tf False = ''FALSE''"
  by (simp add: tf_def)

lemma format_zero: "format_12_6f (Finite False 0 0) = ''    0.000000''"
  by (simp add: eval_simps)

lemma format_examples:
  "format_12_6f (Finite False 3 (- 1)) = ''    1.500000''"
  "format_12_6f (Finite True 12345 (- 3)) = ''-1543.125000''"
  "format_12_6f (Finite False 1 (- 7)) = ''    0.007812''"
  "format_12_6f (Finite False 3 (- 7)) = ''    0.023438''"
  "format_12_6f (Finite True 0 0) = ''   -0.000000''"
  "format_12_6f (Infinity True) = ''        -inf''"
  "format_12_6f NaN = ''         nan''"
  by (simp_all add: eval_simps)

lemma mol_lines_be_mol:
  "mol_lines be_mol =
     [''$molecule'', ''0 3'', ''Be      0.000000      0.000000      0.000000'', ''$end'']"
  by (simp add: mol_lines_def be_mol_def atom_line_def eval_simps)

lemma mol_lines_lih_mol:
  "mol_lines lih_mol =
     [''$molecule'', ''0 1'',
      ''Li      0.000000      0.000000      0.000000'',
      ''H       0.000000      0.000000      1.500000'',
      ''$end'']"
  by (simp add: mol_lines_def lih_mol_def atom_line_def eval_simps)

lemma rem_lines_default:
  "rem_lines m default_options =
     [''$rem'',
      ''JOBTYPE            SP'',
      ''UNRESTRICTED       FALSE'',
      ''BASIS              6-31G*'',
      ''METHOD             '' @ m,
      ''SCF_GUESS          CORE'',
      ''SCF_CONVERGENCE    10'',
      ''SCF_ALGORITHM      DIIS'',
      ''MAX_SCF_CYCLES     100'',
      ''SPIN_FLIP          2'',
      ''CIS_N_ROOTS        4'',
      ''CIS_SINGLETS       TRUE'',
      ''CIS_TRIPLETS       FALSE'',
      ''CIS_CONVERGENCE    8'',
      ''MAX_CIS_CYCLES     100'',
      ''$end'']"
  by (simp add: rem_lines_def default_options_def kv_def tf_def eval_simps)

lemma rem_lines_include_comment:
  "rem_lines m (opts\<lparr>include_comment := b\<rparr>) = rem_lines m opts"
  by (simp add: rem_lines_def)

section \<open>Lines of a joined text\<close>

lemma split_nl_not_Nil: "split_nl s \<noteq> []"
  by (induction s) (auto split: list.splits)

lemma no_nl_Nil [simp]: "no_nl []"
  by (simp add: no_nl_def)

lemma no_nl_Cons [simp]: "no_nl (c # cs) = (c \<noteq> CHR 0x0A \<and> no_nl cs)"
  by (auto simp: no_nl_def)

lemma no_nl_append [simp]: "no_nl (xs @ ys) = (no_nl xs \<and> no_nl ys)"
  by (auto simp: no_nl_def)

lemma no_nl_replicate [simp]: "c \<noteq> CHR 0x0A \<Longrightarrow> no_nl (replicate n c)"
  by (auto simp: no_nl_def)

lemma split_nl_no_nl: "no_nl s \<Longrightarrow> split_nl s = [s]"
  by (induction s) simp_all

text \<open>Splitting distributes over a line break, whatever stands on its two sides.\<close>

lemma split_nl_append: "split_nl (xs @ CHR 0x0A # ys) = split_nl xs @ split_nl ys"
proof (induction xs)
  case Nil
  show ?case by simp
next
  case (Cons c xs)
  obtain l ls where "split_nl xs = l # ls"
    using split_nl_not_Nil [of xs] by (cases "split_nl xs") auto
  with Cons show ?case by simp
qed

text \<open>Joining lines and splitting again gives the lines back.\<close>

lemma split_nl_join: "ls \<noteq> [] \<Longrightarrow> list_all no_nl ls \<Longrightarrow> split_nl (join nl ls) = ls"
  by (induction ls rule: induct_list012) (simp_all add: split_nl_append split_nl_no_nl)

section \<open>Characters and lengths of the formatted fields\<close>

lemma digit_char_digit: "digit (digit_char d)"
  unfolding digit_char_def digit_def by (rule nth_mem) simp

lemma digit_plain: "digit c \<Longrightarrow> c \<noteq> CHR 0x0A \<and> c \<noteq> CHR ''$''"
  by (auto simp: digit_def)

lemma digits_str_nat: "list_all digit (str_nat n)"
proof (induction n rule: str_nat.induct)
  case (1 n)
  show ?case
  proof (cases "n < 10")
    case True
    then show ?thesis by (simp add: str_nat_small digit_char_digit)
  next
    case False
    then show ?thesis using "1" by (simp add: str_nat_big digit_char_digit)
  qed
qed

lemma no_nl_str_nat [simp]: "no_nl (str_nat n)"
  using digits_str_nat [of n] digit_plain by (auto simp: no_nl_def list_all_iff)

lemma no_dollar_str_nat: "CHR ''$'' \<notin> set (str_nat n)"
  using digits_str_nat [of n] digit_plain by (auto simp: list_all_iff)

lemma no_nl_str_int [simp]: "no_nl (str_int i)"
  by (simp add: str_int_def)

lemma no_dollar_str_int: "CHR ''$'' \<notin> set (str_int i)"
  by (simp add: str_int_def no_dollar_str_nat)

lemma no_nl_format_6f: "no_nl (format_6f x)"
  by (cases x) (simp_all add: format_6f_def zfill_def Let_def)

lemma no_nl_format_12_6f [simp]: "no_nl (format_12_6f x)"
  by (simp add: format_12_6f_def rjust_def no_nl_format_6f)

lemma length_format_12_6f: "12 \<le> length (format_12_6f x)"
  by (simp add: format_12_6f_def rjust_def)

lemma no_nl_ljust [simp]: "no_nl (ljust w s) = no_nl s"
  by (simp add: ljust_def)

lemma no_nl_atom_line: "no_nl (fst a) \<Longrightarrow> no_nl (atom_line a)"
  by (cases a) (simp add: atom_line_def)

text \<open>An atom line is at least 2 + 3 * (2 + 12) characters long, a settings line at least 19.\<close>

lemma length_atom_line: "44 \<le> length (atom_line a)"
proof (cases a)
  case (fields symb x y z)
  have "2 \<le> length (ljust 2 symb)" by (simp add: ljust_def)
  then show ?thesis
    using length_format_12_6f [of x] length_format_12_6f [of y] length_format_12_6f [of z]
    by (simp add: fields atom_line_def)
qed

lemma no_nl_kv [simp]: "no_nl (kv k v w) = (no_nl k \<and> no_nl v)"
  by (simp add: kv_def)

lemma length_kv: "w + 1 \<le> length (kv k v w)"
  by (simp add: kv_def ljust_def)

lemma no_nl_tf [simp]: "no_nl (tf b)"
  by (simp add: tf_def)

lemma no_nl_mol_lines:
  "list_all (\<lambda>a. no_nl (fst a)) (atoms mol) \<Longrightarrow> list_all no_nl (mol_lines mol)"
  by (simp add: mol_lines_def list_all_iff no_nl_atom_line)

lemma no_nl_rem_lines:
  "no_nl m \<Longrightarrow> no_nl (jobtype opts) \<Longrightarrow> no_nl (basis opts) \<Longrightarrow> no_nl (scf_guess opts) \<Longrightarrow>
   no_nl (scf_algorithm opts) \<Longrightarrow> list_all no_nl (rem_lines m opts)"
  by (simp add: rem_lines_def)

lemma kv_neq_short: "length s \<le> 18 \<Longrightarrow> kv k v 18 \<noteq> s"
proof
  assume short: "length s \<le> 18" and eq: "kv k v 18 = s"
  have "19 \<le> length (kv k v 18)" using length_kv [of 18 k v] by simp
  with short eq show False by simp
qed

lemma atom_line_neq_short: "length s < 44 \<Longrightarrow> atom_line a \<noteq> s"
proof
  assume short: "length s < 44" and eq: "atom_line a = s"
  have "44 \<le> length (atom_line a)" by (rule length_atom_line)
  with short eq show False by simp
qed

lemma count_atom_lines_short: "length s < 44 \<Longrightarrow> count_list (map atom_line xs) s = 0"
  by (induction xs) (simp_all add: atom_line_neq_short)

lemma header_neq_marker: "str_int c @ CHR '' '' # str_int m \<noteq> CHR ''$'' # s"
proof
  assume "str_int c @ CHR '' '' # str_int m = CHR ''$'' # s"
  then have "CHR ''$'' \<in> set (str_int c @ CHR '' '' # str_int m)" by simp
  then show False using no_dollar_str_int [of c] no_dollar_str_int [of m] by simp
qed

text \<open>How often each marker line occurs among the lines of a part.\<close>

lemma count_comment_lines:
  "count_list [''$comment'', ''  1 '' @ t, ''  2'', ''$end'', ''''] ''$comment'' = 1"
  "count_list [''$comment'', ''  1 '' @ t, ''  2'', ''$end'', ''''] ''$molecule'' = 0"
  "count_list [''$comment'', ''  1 '' @ t, ''  2'', ''$end'', ''''] ''$rem'' = 0"
  "count_list [''$comment'', ''  1 '' @ t, ''  2'', ''$end'', ''''] ''$end'' = 1"
  by simp_all

lemma count_mol_lines:
  "count_list (mol_lines mol) ''$comment'' = 0"
  "count_list (mol_lines mol) ''$molecule'' = 1"
  "count_list (mol_lines mol) ''$rem'' = 0"
  "count_list (mol_lines mol) ''$end'' = 1"
  by (simp_all add: mol_lines_def count_atom_lines_short header_neq_marker)

lemma count_rem_lines:
  "count_list (rem_lines m opts) ''$comment'' = 0"
  "count_list (rem_lines m opts) ''$molecule'' = 0"
  "count_list (rem_lines m opts) ''$rem'' = 1"
  "count_list (rem_lines m opts) ''$end'' = 1"
  by (simp_all add: rem_lines_def kv_neq_short)

section \<open>The parts of \<open>render\<close>\<close>

lemma render_with_lookup_fails:
  "getm opts = Inl e \<Longrightarrow> render_with getm mol opts title = Inl e"
  by (simp add: render_with_def comment_blocks_def auto_title_def generated_title_def
      split: option.splits sum.splits)

lemma comment_blocks_off: "\<not> include_comment opts \<Longrightarrow> comment_blocks getm opts title = Inr []"
  by (simp add: comment_blocks_def)

lemma comment_blocks_title:
  "include_comment opts \<Longrightarrow> t \<noteq> [] \<Longrightarrow>
   comment_blocks getm opts (Some t) =
     Inr [join nl [''$comment'', ''  1 '' @ t, ''  2'', ''$end'', '''']]"
  by (simp add: comment_blocks_def auto_title_def)

section \<open>The renderer on the options class as written\<close>

text \<open>
  C1. The claim: for every molecule with a charge, a multiplicity and atoms, and every
  instance of \<open>QChemOptions\<close>, \<open>render\<close> returns a text and raises no failure of its own.
  The code: every call raises \<open>AttributeError\<close>. With the comment flag set and the title
  omitted or empty, the read of \<open>opts.method\<close> in the generated title raises; in every
  other case the read of \<open>opts.method\<close> in the \<open>METHOD\<close> line does.
\<close>

theorem render_raises_AttributeError:
  "render mol opts title = Inl (AttributeError ''method'')"
  by (simp add: render_def render_with_lookup_fails getattr_method_def)

section \<open>The three sections\<close>

text \<open>
  C2. The claim: the text that \<open>render\<close> returns holds the markers \<open>$comment\<close>,
  \<open>$molecule\<close> and \<open>$rem\<close>, each opened once and closed once by \<open>$end\<close>, in that
  order, as the docstring of \<open>render\<close> lists them and the repository's test
  \<open>test_render_contains_required_blocks\<close> asserts. The code: at the input of that test
  the \<open>$comment\<close> block is built, with its marker and its \<open>$end\<close> once each; the
  \<open>$molecule\<close> lines hold their marker and their \<open>$end\<close> once each, for every
  molecule; the \<open>$rem\<close> lines would hold theirs once each, for every value of
  \<open>opts.method\<close>; but the read of \<open>opts.method\<close> raises and no text is returned.
\<close>

theorem three_sections_never_rendered:
  "render be_mol default_options (Some ''Be/6-31G*/BHHLYP MRSF-TDDFT'') =
     Inl (AttributeError ''method'') \<and>
   map_sum id (map split_nl)
     (comment_blocks getattr_method default_options (Some ''Be/6-31G*/BHHLYP MRSF-TDDFT'')) =
     Inr [[''$comment'', ''  1 Be/6-31G*/BHHLYP MRSF-TDDFT'', ''  2'', ''$end'', '''']] \<and>
   count_list (mol_lines mol) ''$molecule'' = 1 \<and>
   count_list (mol_lines mol) ''$end'' = 1 \<and>
   count_list (rem_lines m opts) ''$rem'' = 1 \<and>
   count_list (rem_lines m opts) ''$end'' = 1"
proof -
  have "render be_mol default_options (Some ''Be/6-31G*/BHHLYP MRSF-TDDFT'') =
     Inl (AttributeError ''method'')"
    by (simp add: render_def render_with_lookup_fails getattr_method_def)
  moreover have "map_sum id (map split_nl)
     (comment_blocks getattr_method default_options (Some ''Be/6-31G*/BHHLYP MRSF-TDDFT'')) =
     Inr [[''$comment'', ''  1 Be/6-31G*/BHHLYP MRSF-TDDFT'', ''  2'', ''$end'', '''']]"
    by (simp add: comment_blocks_def auto_title_def default_options_def)
  ultimately show ?thesis
    using count_mol_lines(2,4) [of mol] count_rem_lines(3,4) [of m opts] by (intro conjI)
qed

section \<open>The settings section\<close>

text \<open>
  C3. The claim: with \<open>exchange = "BHHLYP"\<close> the settings section holds the line
  \<open>EXCHANGE           BHHLYP\<close>, as the class docstring lists it and as the repository's
  test \<open>test_exchange_keyword_used\<close> asserts. The code: the call raises, whatever the
  molecule and the other options; and the settings part writes no \<open>EXCHANGE\<close> key at
  all, so that no value of \<open>opts.method\<close> could make the line appear. The claimed line is
  what \<open>_kv\<close> gives for the key \<open>EXCHANGE\<close>.
\<close>

theorem exchange_line_never_rendered:
  "render mol (opts\<lparr>exchange := ''BHHLYP''\<rparr>) title = Inl (AttributeError ''method'') \<and>
   ''EXCHANGE           BHHLYP'' \<notin> set (rem_lines m (opts\<lparr>exchange := ''BHHLYP''\<rparr>)) \<and>
   kv ''EXCHANGE'' ''BHHLYP'' 18 = ''EXCHANGE           BHHLYP''"
proof -
  have "render mol (opts\<lparr>exchange := ''BHHLYP''\<rparr>) title = Inl (AttributeError ''method'')"
    by (simp add: render_def render_with_lookup_fails getattr_method_def)
  moreover have
    "''EXCHANGE           BHHLYP'' \<notin> set (rem_lines m (opts\<lparr>exchange := ''BHHLYP''\<rparr>))"
    by (simp add: rem_lines_def kv_def ljust_def replicate_numeral)
  moreover have "kv ''EXCHANGE'' ''BHHLYP'' 18 = ''EXCHANGE           BHHLYP''"
    by (simp add: kv_def ljust_def replicate_numeral)
  ultimately show ?thesis by (intro conjI)
qed

text \<open>
  C4. The claim: the settings section of the rendered text has one line per setting, in
  the fixed order, each the key padded to 18 columns, a space and the value. The code:
  with the title of the repository's first test the \<open>$comment\<close> part succeeds, and the
  call then raises at the fourth settings line, before any text is returned.
\<close>

theorem settings_section_never_rendered:
  "comment_blocks getattr_method default_options (Some ''Be/6-31G*/BHHLYP MRSF-TDDFT'') =
     Inr [''$comment\<newline>  1 Be/6-31G*/BHHLYP MRSF-TDDFT\<newline>  2\<newline>$end\<newline>''] \<and>
   render be_mol default_options (Some ''Be/6-31G*/BHHLYP MRSF-TDDFT'') =
     Inl (AttributeError ''method'')"
proof -
  have "comment_blocks getattr_method default_options (Some ''Be/6-31G*/BHHLYP MRSF-TDDFT'') =
     Inr [''$comment\<newline>  1 Be/6-31G*/BHHLYP MRSF-TDDFT\<newline>  2\<newline>$end\<newline>'']"
    by (simp add: comment_blocks_def auto_title_def default_options_def)
  moreover have "render be_mol default_options (Some ''Be/6-31G*/BHHLYP MRSF-TDDFT'') =
     Inl (AttributeError ''method'')"
    by (simp add: render_def render_with_lookup_fails getattr_method_def)
  ultimately show ?thesis by (intro conjI)
qed

text \<open>
  C6. The claim: a boolean option is rendered as \<open>TRUE\<close> or \<open>FALSE\<close>, and rendering with
  \<open>cis_singlets=False, cis_triplets=True\<close> yields the lines \<open>CIS_SINGLETS       FALSE\<close>
  and \<open>CIS_TRIPLETS       TRUE\<close>, as the repository's test \<open>test_boolean_toggles\<close>
  asserts. The code: \<open>_tf\<close> and \<open>_kv\<close> give exactly these tokens and lines, but the call
  of that test raises before the two lines are built.
\<close>

theorem boolean_toggles_never_rendered:
  "render be_mol (default_options\<lparr>cis_singlets := False, cis_triplets := True\<rparr>) None =
     Inl (AttributeError ''method'') \<and>
   tf True = ''TRUE'' \<and> tf False = ''FALSE'' \<and>
   kv ''CIS_SINGLETS'' (tf False) 18 = ''CIS_SINGLETS       FALSE'' \<and>
   kv ''CIS_TRIPLETS'' (tf True) 18 = ''CIS_TRIPLETS       TRUE''"
proof -
  have "render be_mol (default_options\<lparr>cis_singlets := False, cis_triplets := True\<rparr>) None =
     Inl (AttributeError ''method'')"
    by (simp add: render_def render_with_lookup_fails getattr_method_def)
  moreover have "kv ''CIS_SINGLETS'' (tf False) 18 = ''CIS_SINGLETS       FALSE''"
    by (simp add: kv_def tf_def ljust_def replicate_numeral)
  moreover have "kv ''CIS_TRIPLETS'' (tf True) 18 = ''CIS_TRIPLETS       TRUE''"
    by (simp add: kv_def tf_def ljust_def replicate_numeral)
  ultimately show ?thesis using tf_cases by (intro conjI) simp_all
qed

section \<open>The molecule section\<close>

text \<open>
  Against C5 as it is stated: the lines after the \<open>$molecule\<close> marker, joined, are not
  the string of the claim, whose atom line has 37 characters where the format gives 44.
\<close>

theorem be_molecule_section_counterexample:
  "join nl (tl (mol_lines be_mol)) \<noteq>
     ''0 3\<newline>Be   0.000000    0.000000    0.000000\<newline>$end''"
  by (simp add: mol_lines_be_mol)

text \<open>
  C5, amended. For the molecule of one \<open>Be\<close> atom at the origin, charge 0 and multiplicity
  3, the molecule section that \<open>render\<close> builds is, after its marker line, exactly
  \<open>0 3\<close>, the atom line and \<open>$end\<close>; the atom line is the symbol in a 2-character
  left-aligned field and, for each coordinate, two spaces and the coordinate
  right-aligned in a 12-character field with 6 decimals, 44 characters in all.
\<close>

theorem be_molecule_section:
  "join nl (tl (mol_lines be_mol)) =
     ''0 3\<newline>Be      0.000000      0.000000      0.000000\<newline>$end'' \<and>
   atom_line (''Be'', Finite False 0 0, Finite False 0 0, Finite False 0 0) =
     ljust 2 ''Be'' @ ''  '' @ rjust 12 ''0.000000'' @ ''  '' @ rjust 12 ''0.000000'' @ ''  '' @
     rjust 12 ''0.000000'' \<and>
   length (atom_line (''Be'', Finite False 0 0, Finite False 0 0, Finite False 0 0)) = 44"
proof -
  have "join nl (tl (mol_lines be_mol)) =
     ''0 3\<newline>Be      0.000000      0.000000      0.000000\<newline>$end''"
    by (simp add: mol_lines_be_mol)
  moreover have
    "atom_line (''Be'', Finite False 0 0, Finite False 0 0, Finite False 0 0) =
     ljust 2 ''Be'' @ ''  '' @ rjust 12 ''0.000000'' @ ''  '' @ rjust 12 ''0.000000'' @ ''  '' @
     rjust 12 ''0.000000''"
    by (simp add: atom_line_def eval_simps)
  moreover have
    "length (atom_line (''Be'', Finite False 0 0, Finite False 0 0, Finite False 0 0)) = 44"
    by (simp add: atom_line_def eval_simps)
  ultimately show ?thesis by (intro conjI)
qed

text \<open>
  C9. The claim: the molecule section of the rendered text has the line
  \<open><charge> <multiplicity>\<close> first and then one line per atom, in the order of the
  molecule's atoms. The code: the \<open>$molecule\<close> part builds exactly these lines, for every
  molecule, but the call raises afterwards and returns no text that holds them.
\<close>

theorem atom_lines_never_rendered:
  "render mol opts title = Inl (AttributeError ''method'') \<and>
   hd (mol_lines mol) = ''$molecule'' \<and>
   hd (tl (mol_lines mol)) = str_int (charge mol) @ '' '' @ str_int (multiplicity mol) \<and>
   butlast (drop 2 (mol_lines mol)) = map atom_line (atoms mol) \<and>
   last (mol_lines mol) = ''$end'' \<and>
   mol_lines lih_mol =
     [''$molecule'', ''0 1'',
      ''Li      0.000000      0.000000      0.000000'',
      ''H       0.000000      0.000000      1.500000'',
      ''$end'']"
proof -
  have "render mol opts title = Inl (AttributeError ''method'')"
    by (simp add: render_def render_with_lookup_fails getattr_method_def)
  moreover have "hd (mol_lines mol) = ''$molecule''"
    by (simp add: mol_lines_def)
  moreover have
    "hd (tl (mol_lines mol)) = str_int (charge mol) @ '' '' @ str_int (multiplicity mol)"
    by (simp add: mol_lines_def)
  moreover have "butlast (drop 2 (mol_lines mol)) = map atom_line (atoms mol)"
    by (simp add: mol_lines_def butlast_append)
  moreover have "last (mol_lines mol) = ''$end''"
    by (simp add: mol_lines_def)
  ultimately show ?thesis using mol_lines_lih_mol by (intro conjI)
qed

section \<open>The title\<close>

text \<open>
  C7. The claim: with the comment flag set and the title omitted, the header line of the
  comment section carries a generated, non-empty title that interpolates the basis name
  and a method name; a title that the caller supplies is used instead. The docstring of
  \<open>render\<close> says the same: "If omitted, a default title is generated". The code: a
  supplied title that is not empty is the title of the header line; for an omitted
  title, and for an empty one, the read of \<open>opts.method\<close> in the generated title raises,
  whatever the other options, and no header line is built.
\<close>

theorem generated_title_never_rendered:
  "comment_blocks getattr_method (opts\<lparr>include_comment := True\<rparr>) None =
     Inl (AttributeError ''method'') \<and>
   comment_blocks getattr_method (opts\<lparr>include_comment := True\<rparr>) (Some '''') =
     Inl (AttributeError ''method'') \<and>
   comment_blocks getattr_method (opts\<lparr>include_comment := True\<rparr>) (Some (c # cs)) =
     Inr [join nl [''$comment'', ''  1 '' @ c # cs, ''  2'', ''$end'', '''']] \<and>
   render be_mol default_options None = Inl (AttributeError ''method'')"
proof -
  have "comment_blocks getattr_method (opts\<lparr>include_comment := True\<rparr>) None =
     Inl (AttributeError ''method'')"
    by (simp add: comment_blocks_def auto_title_def generated_title_def getattr_method_def)
  moreover have
    "comment_blocks getattr_method (opts\<lparr>include_comment := True\<rparr>) (Some '''') =
     Inl (AttributeError ''method'')"
    by (simp add: comment_blocks_def auto_title_def generated_title_def getattr_method_def)
  moreover have
    "comment_blocks getattr_method (opts\<lparr>include_comment := True\<rparr>) (Some (c # cs)) =
     Inr [join nl [''$comment'', ''  1 '' @ c # cs, ''  2'', ''$end'', '''']]"
    by (simp add: comment_blocks_def auto_title_def)
  moreover have "render be_mol default_options None = Inl (AttributeError ''method'')"
    by (simp add: render_def render_with_lookup_fails getattr_method_def)
  ultimately show ?thesis by (intro conjI)
qed

section \<open>The unused title\<close>

text \<open>
  C10. With the comment flag off the title has no influence on the outcome: two calls
  that differ in the title alone have the same outcome, on the class as written and
  under every lookup of \<open>method\<close>.
\<close>

theorem title_ignored_without_comment:
  assumes "\<not> include_comment opts"
  shows "render mol opts title1 = render mol opts title2 \<and>
         render_with getm mol opts title1 = render_with getm mol opts title2"
  using assms
  by (simp add: render_def render_with_def comment_blocks_off)

theorem title_ignored_without_comment_witness:
  "render be_mol (default_options\<lparr>include_comment := False\<rparr>) None =
     render be_mol (default_options\<lparr>include_comment := False\<rparr>) (Some ''Be'') \<and>
   render_with method_is_exchange be_mol (default_options\<lparr>include_comment := False\<rparr>) None =
     render_with method_is_exchange be_mol (default_options\<lparr>include_comment := False\<rparr>)
       (Some ''Be'')"
proof -
  have h: "\<not> include_comment (default_options\<lparr>include_comment := False\<rparr>)"
    by simp
  show ?thesis
    by (rule title_ignored_without_comment [OF h])
qed

end
